theory Spec2Isabelle
  imports Main "HOL-Library.Char_ord" "HOL-Library.List_Lexorder"
begin

section \<open>The checker listing command: \<^verbatim>\<open>codechecker_analyzer/cmd/checkers.py\<close>\<close>

text \<open>
  A Python \<^verbatim>\<open>str\<close> is modelled as a \<^typ>\<open>string\<close> whose characters are code
  points below 256; text with larger code points is outside the model. A Python
  \<^verbatim>\<open>dict\<close> is modelled by the list of its items in insertion order.
\<close>

subsection \<open>Strings\<close>

text \<open>
  \<^verbatim>\<open>str.lower()\<close> on one code point below 256: the ASCII capitals and the Latin-1
  capitals (\<^verbatim>\<open>0xC0\<close> to \<^verbatim>\<open>0xDE\<close>, the multiplication sign \<^verbatim>\<open>0xD7\<close> apart) move up
  by 32, every other code point stays.
\<close>

definition py_lower_char :: "char \<Rightarrow> char" where
  "py_lower_char c =
     (let n = (of_char c :: nat)
      in if (65 \<le> n \<and> n \<le> 90) \<or> (192 \<le> n \<and> n \<le> 222 \<and> n \<noteq> 215)
         then char_of (n + 32) else c)"

definition py_lower :: "string \<Rightarrow> string" where
  "py_lower text = map py_lower_char text"

text \<open>\<^verbatim>\<open>text.replace(old, new)\<close> for one-character \<^verbatim>\<open>old\<close> and \<^verbatim>\<open>new\<close>.\<close>

definition py_replace_char :: "char \<Rightarrow> char \<Rightarrow> string \<Rightarrow> string" where
  "py_replace_char old new text = map (\<lambda>c. if c = old then new else c) text"

text \<open>\<^verbatim>\<open>sep.join(xs)\<close>.\<close>

fun py_join :: "string \<Rightarrow> string list \<Rightarrow> string" where
  "py_join sep [] = []"
| "py_join sep [x] = x"
| "py_join sep (x # y # ys) = x @ sep @ py_join sep (y # ys)"

text \<open>
  \<^verbatim>\<open>str.isspace\<close> on one code point below 256: tab to carriage return, the four
  separators \<^verbatim>\<open>0x1C\<close> to \<^verbatim>\<open>0x1F\<close>, the space, \<^verbatim>\<open>0x85\<close> and \<^verbatim>\<open>0xA0\<close>.
\<close>

definition py_isspace :: "char \<Rightarrow> bool" where
  "py_isspace c =
     (let n = (of_char c :: nat)
      in (9 \<le> n \<and> n \<le> 13) \<or> (28 \<le> n \<and> n \<le> 32) \<or> n = 133 \<or> n = 160)"

text \<open>
  \<^verbatim>\<open>str.split()\<close> with no separator: runs of whitespace separate the tokens and no
  empty token is produced. \<open>cur\<close> is the token being read.
\<close>

fun split_from :: "string \<Rightarrow> string \<Rightarrow> string list" where
  "split_from cur [] = (if cur = [] then [] else [cur])"
| "split_from cur (c # cs) =
     (if py_isspace c
      then (if cur = [] then split_from [] cs else cur # split_from [] cs)
      else split_from (cur @ [c]) cs)"

definition py_split :: "string \<Rightarrow> string list" where
  "py_split s = split_from [] s"

definition startswith :: "string \<Rightarrow> string \<Rightarrow> bool" where
  "startswith w p = (take (length p) w = p)"

subsection \<open>Paths (\<^verbatim>\<open>posixpath\<close>)\<close>

definition rstrip_sep :: "string \<Rightarrow> string" where
  "rstrip_sep p = rev (dropWhile (\<lambda>c. c = CHR ''/'') (rev p))"

text \<open>\<^verbatim>\<open>os.path.dirname\<close>: the part up to the last slash, its trailing slashes removed
  unless it consists of slashes only.\<close>

definition dirname :: "string \<Rightarrow> string" where
  "dirname p =
     (let head = rev (dropWhile (\<lambda>c. c \<noteq> CHR ''/'') (rev p))
      in if head \<noteq> [] \<and> head \<noteq> replicate (length head) (CHR ''/'')
         then rstrip_sep head else head)"

text \<open>\<^verbatim>\<open>os.path.join(a, b)\<close> for two components.\<close>

definition path_join :: "string \<Rightarrow> string \<Rightarrow> string" where
  "path_join a b =
     (if startswith b ''/'' then b
      else if a = [] \<or> last a = CHR ''/'' then a @ b
      else a @ ''/'' @ b)"

subsection \<open>Data of the command\<close>

text \<open>
  Modelled from the spec: \<^verbatim>\<open>CheckerState\<close> is imported from
  \<^verbatim>\<open>codechecker_analyzer.analyzers.config_handler\<close>, which is not among the sources;
  the spec gives a checker state as one of enabled and disabled. The command only ever
  compares a state with \<^verbatim>\<open>CheckerState.enabled\<close>.
\<close>

datatype CheckerState = enabled | disabled

text \<open>
  What \<^verbatim>\<open>subprocess.check_output\<close> does: the process cannot be started
  (\<^verbatim>\<open>OSError\<close>), it exits with a non-zero code (\<^verbatim>\<open>CalledProcessError\<close>), or it
  succeeds with its decoded standard output.
\<close>

datatype proc_result = OSError | CalledProcessError nat | Output string

text \<open>
  The parsed command line. An option declared with \<^verbatim>\<open>default=argparse.SUPPRESS\<close> is
  an attribute of \<^verbatim>\<open>args\<close> only when it was given: \<^verbatim>\<open>'details' in args\<close> is the
  field \<open>details\<close>, and \<^verbatim>\<open>'profile' in args\<close> is \<open>profile a \<noteq> None\<close>.
\<close>

record args =
  analyzers :: "string list"
  show_warnings :: bool
  details :: bool
  profile :: "string option"
  guideline :: "string list option"
  checker_config :: bool
  only_enabled :: bool
  only_disabled :: bool
  output_format :: string

text \<open>
  Everything the command reads from outside this file: the label store
  (\<^verbatim>\<open>context.checker_labels\<close>), the analyzers, and the machine.
  \<^item> \<open>checks analyzer checkers profile_checkers\<close> is the content of
    \<^verbatim>\<open>config_handler.checks().items()\<close> of that analyzer after
    \<^verbatim>\<open>config_handler.initialize_checkers(context, checkers, profile_checkers)\<close>;
  \<^item> \<open>clang_bin\<close> is \<^verbatim>\<open>context.analyzer_binaries.get(ClangSA.ANALYZER_NAME)\<close>;
  \<^item> \<open>run_tree diagtool_bin\<close> is the run of \<^verbatim>\<open>[diagtool_bin, 'tree']\<close>.
\<close>

record ctxt =
  labels_of_checker :: "string \<Rightarrow> (string \<times> string) list"
  get_description :: "string \<Rightarrow> (string \<times> string) list"
  occurring_values :: "string \<Rightarrow> string list"
  severity :: "string \<Rightarrow> string"
  check_supported_analyzers :: "string list \<Rightarrow> string list \<times> (string \<times> string) list"
  get_checker_config :: "string \<Rightarrow> (string \<times> string) list"
  get_analyzer_checkers :: "string \<Rightarrow> (string \<times> string) list"
  checks :: "string \<Rightarrow> (string \<times> string) list \<Rightarrow> (string \<times> bool) list
               \<Rightarrow> (string \<times> CheckerState \<times> string) list"
  clang_bin :: "string option"
  realpath :: "string \<Rightarrow> string"
  path_exists :: "string \<Rightarrow> bool"
  run_tree :: "string \<Rightarrow> proc_result"

text \<open>
  One cell of an output row: a string, the boolean of the json format, a list of rule
  names, or the dictionary from guideline names to rule names.
\<close>

datatype cell = Str string | Flag bool | Strs "string list" | Dict "(string \<times> string list) list"

type_synonym row = "cell list"

text \<open>
  What a run does, in order: \<open>Print_twodim fmt header rows\<close> is
  \<^verbatim>\<open>print(twodim.to_str(fmt, header, rows))\<close>, \<open>Print\<close> a plain \<^verbatim>\<open>print\<close>,
  \<open>Log_warning\<close> and \<open>Log_error\<close> the calls of the logger, and
  \<open>Print_unsupported_analyzers errored\<close> the call of
  \<^verbatim>\<open>analyzer_types.print_unsupported_analyzers\<close>.
\<close>

datatype effect =
    Print_twodim string "string list" "row list"
  | Print string
  | Log_warning string
  | Log_error string
  | Print_unsupported_analyzers "(string \<times> string) list"

text \<open>A run returns from \<^verbatim>\<open>main\<close> or leaves through \<^verbatim>\<open>sys.exit(code)\<close>.\<close>

datatype outcome = Returned | Exited nat

definition is_print :: "effect \<Rightarrow> bool" where
  "is_print e = (case e of Print_twodim f h r \<Rightarrow> True | Print s \<Rightarrow> True | _ \<Rightarrow> False)"

definition quoted :: "string \<Rightarrow> string" where
  "quoted s = [CHR 0x27] @ s @ [CHR 0x27]"

subsection \<open>The diagnostics-listing helper\<close>

definition get_diagtool_bin :: "ctxt \<Rightarrow> string option" where
  "get_diagtool_bin ctx =
     (case clang_bin ctx of
        None \<Rightarrow> None
      | Some cb \<Rightarrow>
          if cb = [] then None
          else (let diagtool_bin = path_join (dirname (realpath ctx cb)) ''diagtool''
                in if path_exists ctx diagtool_bin then Some diagtool_bin else None))"

definition get_warnings :: "ctxt \<Rightarrow> string list" where
  "get_warnings ctx =
     (case get_diagtool_bin ctx of
        None \<Rightarrow> []
      | Some diagtool_bin \<Rightarrow>
          if diagtool_bin = [] then []
          else (case run_tree ctx diagtool_bin of
                  Output result \<Rightarrow>
                    map (drop 2) (filter (\<lambda>w. startswith w ''-W'') (py_split result))
                | CalledProcessError rc \<Rightarrow> []
                | OSError \<Rightarrow> []))"

subsection \<open>Header normalisation\<close>

definition uglify :: "string \<Rightarrow> string" where
  "uglify text = py_replace_char (CHR '' '') (CHR ''_'') (py_lower text)"

text \<open>The step \<^verbatim>\<open>if args.output_format in ['csv', 'json']: header = list(map(uglify, header))\<close>.\<close>

definition format_header :: "args \<Rightarrow> string list \<Rightarrow> string list" where
  "format_header a header =
     (if output_format a \<in> set [''csv'', ''json''] then map uglify header else header)"

subsection \<open>Guidelines\<close>

fun match_labels :: "string list \<Rightarrow> string list \<Rightarrow> (string \<times> string) list \<Rightarrow> bool" where
  "match_labels choices selected_guidelines [] = False"
| "match_labels choices selected_guidelines ((label, val) # labels) =
     (if (label = ''guideline'' \<or> label \<in> set choices) \<and> val \<in> set selected_guidelines
      then True
      else match_labels choices selected_guidelines labels)"

definition match_guideline :: "ctxt \<Rightarrow> string \<Rightarrow> string list \<Rightarrow> bool" where
  "match_guideline ctx checker_name selected_guidelines =
     (let labels = labels_of_checker ctx checker_name;
          choices = get_description ctx ''guideline''
      in match_labels (map fst choices) selected_guidelines labels)"

definition format_guideline :: "(string \<times> string list) list \<Rightarrow> string" where
  "format_guideline covered =
     py_join '' '' (map (\<lambda>(g, r). ''Related '' @ g @ '' rules: '' @ py_join '', '' r) covered)"

text \<open>\<^verbatim>\<open>result[k].append(v)\<close> on a \<^verbatim>\<open>defaultdict(list)\<close>.\<close>

fun dict_append :: "string \<Rightarrow> string \<Rightarrow> (string \<times> string list) list \<Rightarrow> (string \<times> string list) list" where
  "dict_append k v [] = [(k, [v])]"
| "dict_append k v ((k', vs) # rest) =
     (if k = k' then (k', vs @ [v]) # rest else (k', vs) # dict_append k v rest)"

text \<open>\<^verbatim>\<open>result[k] = v\<close> on a \<^verbatim>\<open>dict\<close>.\<close>

fun dict_set :: "string \<Rightarrow> 'v \<Rightarrow> (string \<times> 'v) list \<Rightarrow> (string \<times> 'v) list" where
  "dict_set k v [] = [(k, v)]"
| "dict_set k v ((k', v') # rest) =
     (if k = k' then (k', v) # rest else (k', v') # dict_set k v rest)"

fun rules_loop :: "string list \<Rightarrow> (string \<times> string) list \<Rightarrow> (string \<times> string list) list
                     \<Rightarrow> (string \<times> string list) list" where
  "rules_loop guidelines [] result = result"
| "rules_loop guidelines (label # labels) result =
     (if fst label \<in> set guidelines
      then rules_loop guidelines labels (dict_append (fst label) (snd label) result)
      else rules_loop guidelines labels result)"

definition guideline_rules_for_checker :: "ctxt \<Rightarrow> string \<Rightarrow> (string \<times> string list) list" where
  "guideline_rules_for_checker ctx checker =
     (let labels = labels_of_checker ctx checker;
          guidelines = get_description ctx ''guideline''
      in rules_loop (map fst guidelines) labels [])"

subsection \<open>Listing the profiles\<close>

definition list_profiles :: "ctxt \<Rightarrow> args \<Rightarrow> effect list \<times> outcome" where
  "list_profiles ctx a =
     (let header = (if details a then [''Profile name'', ''Description''] else [''Profile name'']);
          rows = (if details a
                  then map (\<lambda>(k, d). [Str k, Str d]) (get_description ctx ''profile'')
                  else map (\<lambda>(k, d). [Str k]) (get_description ctx ''profile''))
      in ([Log_warning ''--profile flag is deprecated and will be removed in the next release.'',
           Print_twodim (output_format a) (format_header a header) rows],
          Returned))"

subsection \<open>Listing the checker configuration options\<close>

definition config_row :: "args \<Rightarrow> string \<Rightarrow> string \<times> string \<Rightarrow> row" where
  "config_row a analyzer c =
     (if details a then [Str (py_join '':'' [analyzer, fst c]), Str (snd c)]
      else [Str (py_join '':'' [analyzer, fst c])])"

fun config_loop :: "ctxt \<Rightarrow> args \<Rightarrow> string list \<Rightarrow> row list \<Rightarrow> string list
                      \<Rightarrow> row list \<times> string list" where
  "config_loop ctx a [] rows analyzer_failures = (rows, analyzer_failures)"
| "config_loop ctx a (analyzer # rest) rows analyzer_failures =
     (let configs = get_checker_config ctx analyzer
      in if configs = []
         then config_loop ctx a rest rows (analyzer_failures @ [analyzer])
         else config_loop ctx a rest (rows @ map (config_row a analyzer) configs) analyzer_failures)"

definition config_failure_message :: "string list \<Rightarrow> string" where
  "config_failure_message analyzer_failures =
     ''Failed to get checker configuration options for '' @ quoted (py_join '', '' analyzer_failures)
     @ '' analyzer(s)! Please try to upgrade your analyzer version to use this feature.''"

definition list_checker_config :: "ctxt \<Rightarrow> args \<Rightarrow> string list \<Rightarrow> effect list \<times> outcome" where
  "list_checker_config ctx a working_analyzers =
     (let header = (if details a then [''Option'', ''Description''] else [''Option'']);
          (rows, analyzer_failures) = config_loop ctx a working_analyzers [] []
      in ((if rows \<noteq> [] then [Print_twodim (output_format a) (format_header a header) rows] else [])
          @ (if analyzer_failures \<noteq> [] then [Log_error (config_failure_message analyzer_failures)] else []),
          if analyzer_failures \<noteq> [] then Exited 1 else Returned))"

subsection \<open>Listing the guidelines\<close>

fun guideline_result :: "ctxt \<Rightarrow> string list \<Rightarrow> (string \<times> string list) list
                           \<Rightarrow> (string \<times> string list) list" where
  "guideline_result ctx [] result = result"
| "guideline_result ctx (g # gs) result =
     guideline_result ctx gs (dict_set g (occurring_values ctx g) result)"

text \<open>\<^verbatim>\<open>sorted(r)\<close> for the set \<^verbatim>\<open>r\<close> of the values in the list \<open>vs\<close>.\<close>

definition sorted_set :: "string list \<Rightarrow> string list" where
  "sorted_set vs = sort (remdups vs)"

definition list_guidelines :: "ctxt \<Rightarrow> args \<Rightarrow> effect list \<times> outcome" where
  "list_guidelines ctx a =
     (let result = guideline_result ctx (map fst (get_description ctx ''guideline'')) [];
          header = format_header a [''Guideline'', ''Rules''];
          rows = (if output_format a = ''json''
                  then map (\<lambda>(g, r). [Str g, Strs (sorted_set r)]) result
                  else map (\<lambda>(g, r). [Str g, Str (py_join '', '' (sorted_set r))]) result)
      in (if output_format a = ''rows''
          then concat (map (\<lambda>(g, r). [Print (''Guideline: '' @ g),
                                       Print (''Rules: '' @ py_join '', '' (sorted_set r))]) result)
          else [Print_twodim (output_format a) header rows],
          Returned))"

subsection \<open>Listing the checkers\<close>

definition state_cell :: "args \<Rightarrow> CheckerState \<Rightarrow> cell" where
  "state_cell a state =
     (if output_format a = ''json'' then Flag (state = enabled)
      else Str (if state = enabled then ''+'' else ''-''))"

definition guideline_cell :: "ctxt \<Rightarrow> args \<Rightarrow> string \<Rightarrow> cell" where
  "guideline_cell ctx a checker =
     (let covered = guideline_rules_for_checker ctx checker
      in if output_format a \<noteq> ''json'' then Str (format_guideline covered) else Dict covered)"

text \<open>
  The test \<^verbatim>\<open>if args.guideline is not None: if not match_guideline(name, args.guideline): continue\<close>,
  which the loop over the checkers and the loop over the warnings both make.
\<close>

definition guideline_skips :: "ctxt \<Rightarrow> args \<Rightarrow> string \<Rightarrow> bool" where
  "guideline_skips ctx a name =
     (case guideline a of None \<Rightarrow> False | Some g \<Rightarrow> \<not> match_guideline ctx name g)"

text \<open>The body of the loop over \<^verbatim>\<open>config_handler.checks().items()\<close>: \<open>None\<close> is \<^verbatim>\<open>continue\<close>.\<close>

definition checker_row :: "ctxt \<Rightarrow> args \<Rightarrow> string \<Rightarrow> string \<times> CheckerState \<times> string \<Rightarrow> row option" where
  "checker_row ctx a analyzer item =
     (case item of (checker, state, description) \<Rightarrow>
        if state \<noteq> enabled \<and> profile a \<noteq> None then None
        else if state = enabled \<and> only_disabled a then None
        else if state \<noteq> enabled \<and> only_enabled a then None
        else if guideline_skips ctx a checker then None
        else if details a
             then Some [state_cell a state, Str checker, Str analyzer, Str (severity ctx checker),
                        guideline_cell ctx a checker, Str description]
             else Some [Str checker])"

fun checker_loop :: "ctxt \<Rightarrow> args \<Rightarrow> string \<Rightarrow> (string \<times> CheckerState \<times> string) list
                       \<Rightarrow> row list \<Rightarrow> row list" where
  "checker_loop ctx a analyzer [] rows = rows"
| "checker_loop ctx a analyzer (item # items) rows =
     (case checker_row ctx a analyzer item of
        None \<Rightarrow> checker_loop ctx a analyzer items rows
      | Some r \<Rightarrow> checker_loop ctx a analyzer items (rows @ [r]))"

definition profile_missing_errors :: "string \<Rightarrow> effect list" where
  "profile_missing_errors p =
     [Log_error (''Checker profile '' @ quoted p @ '' does not exist!''),
      Log_error (''To list available profiles, use '' @ quoted ''--profile list'' @ ''.'')]"

text \<open>
  The check of a requested profile, made for each analyzer: \<open>Inl\<close> is the
  \<^verbatim>\<open>sys.exit(1)\<close> of an unknown profile, \<open>Inr\<close> carries \<^verbatim>\<open>profile_checkers\<close>.
\<close>

definition profile_checkers_of :: "ctxt \<Rightarrow> args \<Rightarrow> effect list + (string \<times> bool) list" where
  "profile_checkers_of ctx a =
     (case profile a of
        None \<Rightarrow> Inr []
      | Some p \<Rightarrow>
          (let available_profiles = get_description ctx ''profile''
           in if p \<notin> set (map fst available_profiles)
              then Inl (profile_missing_errors p)
              else Inr [(''profile:'' @ p, True)]))"

text \<open>The loop over the working analyzers.\<close>

fun analyzer_loop :: "ctxt \<Rightarrow> args \<Rightarrow> string list \<Rightarrow> row list \<Rightarrow> effect list + row list" where
  "analyzer_loop ctx a [] rows = Inr rows"
| "analyzer_loop ctx a (analyzer # rest) rows =
     (let checkers = get_analyzer_checkers ctx analyzer
      in case profile_checkers_of ctx a of
           Inl errors \<Rightarrow> Inl errors
         | Inr profile_checkers \<Rightarrow>
             analyzer_loop ctx a rest
               (checker_loop ctx a analyzer (checks ctx analyzer checkers profile_checkers) rows))"

text \<open>The body of the loop over the warnings.\<close>

definition warning_row :: "ctxt \<Rightarrow> args \<Rightarrow> string \<Rightarrow> row option" where
  "warning_row ctx a w =
     (let warning = ''clang-diagnostic-'' @ w
      in if guideline_skips ctx a warning then None
         else if details a
              then Some [Str [], Str warning, Str ''-'', Str ''MEDIUM'',
                         guideline_cell ctx a warning, Str ''-'']
              else Some [Str warning])"

fun warning_loop :: "ctxt \<Rightarrow> args \<Rightarrow> string list \<Rightarrow> row list \<Rightarrow> row list" where
  "warning_loop ctx a [] rows = rows"
| "warning_loop ctx a (w # ws) rows =
     (case warning_row ctx a w of
        None \<Rightarrow> warning_loop ctx a ws rows
      | Some r \<Rightarrow> warning_loop ctx a ws (rows @ [r]))"

definition checkers_header :: "args \<Rightarrow> string list" where
  "checkers_header a =
     format_header a (if details a
                      then [''Enabled'', ''Name'', ''Analyzer'', ''Severity'', ''Guideline'', ''Description'']
                      else [''Name''])"

text \<open>The rows of the listing: those of the checkers, then those of the warnings.\<close>

definition collect_rows :: "ctxt \<Rightarrow> args \<Rightarrow> string list \<Rightarrow> effect list + row list" where
  "collect_rows ctx a working_analyzers =
     (case analyzer_loop ctx a working_analyzers [] of
        Inl errors \<Rightarrow> Inl errors
      | Inr rows \<Rightarrow>
          Inr (if show_warnings a then warning_loop ctx a (get_warnings ctx) rows else rows))"

definition list_checkers :: "ctxt \<Rightarrow> args \<Rightarrow> string list \<Rightarrow> (string \<times> string) list
                               \<Rightarrow> effect list \<times> outcome" where
  "list_checkers ctx a working_analyzers errored =
     (case collect_rows ctx a working_analyzers of
        Inl errors \<Rightarrow> (errors, Exited 1)
      | Inr rows \<Rightarrow>
          ((if rows \<noteq> [] then [Print_twodim (output_format a) (checkers_header a) rows] else [])
           @ [Print_unsupported_analyzers errored],
           Returned))"

subsection \<open>The command\<close>

text \<open>
  Modelled from the spec: \<^verbatim>\<open>analyzer_types.check_available_analyzers\<close> is not among
  the sources; by the spec the exit code is non-zero when the requested analyzers cannot
  be resolved at all. The value is whether the run goes on.
\<close>

definition check_available_analyzers :: "string list \<Rightarrow> (string \<times> string) list \<Rightarrow> bool" where
  "check_available_analyzers working_analyzers errored = (working_analyzers \<noteq> [])"

definition main :: "ctxt \<Rightarrow> args \<Rightarrow> effect list \<times> outcome" where
  "main ctx a =
     (case check_supported_analyzers ctx (analyzers a) of (working_analyzers, errored) \<Rightarrow>
        if \<not> check_available_analyzers working_analyzers errored then ([], Exited 1)
        else if profile a = Some ''list'' then list_profiles ctx a
        else if checker_config a then list_checker_config ctx a working_analyzers
        else if guideline a = Some [] then list_guidelines ctx a
        else list_checkers ctx a working_analyzers errored)"

subsection \<open>A small installation, for concrete runs\<close>

text \<open>
  The analyzer \<^verbatim>\<open>clangsa\<close> has three checkers: \<^verbatim>\<open>A\<close> and \<^verbatim>\<open>C\<close> are in the
  profile \<^verbatim>\<open>default\<close>, \<^verbatim>\<open>B\<close> is in the profile \<^verbatim>\<open>strict\<close>, and \<^verbatim>\<open>C\<close> covers
  the rule \<^verbatim>\<open>arr30-c\<close> of the guideline \<^verbatim>\<open>sei-cert\<close>. The analyzer
  \<^verbatim>\<open>clang-tidy\<close> has no checkers and reports no configuration options. The analyzer
  \<^verbatim>\<open>cppcheck\<close> has one checker, \<^verbatim>\<open>D\<close>, which is in no profile. The profile
  \<^verbatim>\<open>sensitive\<close> is described and has no checker. The states in \<open>checks\<close> follow the
  resolution of the spec: a checker is enabled when it is in the profile \<^verbatim>\<open>default\<close>
  or in a profile that \<^verbatim>\<open>profile_checkers\<close> enables.
\<close>

definition ex_ctxt :: ctxt where
  "ex_ctxt = \<lparr>
     labels_of_checker = (\<lambda>c.
        if c = ''A'' then [(''profile'', ''default''), (''severity'', ''HIGH'')]
        else if c = ''B'' then [(''profile'', ''strict'')]
        else if c = ''C'' then [(''profile'', ''default''), (''guideline'', ''sei-cert''),
                                (''sei-cert'', ''arr30-c'')]
        else []),
     get_description = (\<lambda>k.
        if k = ''profile'' then [(''default'', ''Default checkers''), (''strict'', ''Strict checkers''),
                                 (''sensitive'', ''Sensitive checkers'')]
        else if k = ''guideline'' then [(''sei-cert'', ''SEI CERT'')]
        else []),
     occurring_values = (\<lambda>k. if k = ''sei-cert'' then [''arr30-c''] else []),
     severity = (\<lambda>c. if c = ''A'' then ''HIGH'' else ''UNSPECIFIED''),
     check_supported_analyzers = (\<lambda>requested. (requested, [])),
     get_checker_config = (\<lambda>an. if an = ''clangsa'' then [(''opt'', ''An option'')] else []),
     get_analyzer_checkers = (\<lambda>an.
        if an = ''clangsa'' then [(''A'', ''a''), (''B'', ''b''), (''C'', ''c'')]
        else if an = ''cppcheck'' then [(''D'', ''d'')]
        else []),
     checks = (\<lambda>an checkers profile_checkers.
        if an = ''clangsa''
        then (if profile_checkers = [(''profile:strict'', True)]
              then [(''A'', enabled, ''a''), (''B'', enabled, ''b''), (''C'', enabled, ''c'')]
              else [(''A'', enabled, ''a''), (''B'', disabled, ''b''), (''C'', enabled, ''c'')])
        else if an = ''cppcheck'' then [(''D'', disabled, ''d'')]
        else []),
     clang_bin = Some ''/usr/bin/clang'',
     realpath = (\<lambda>p. p),
     path_exists = (\<lambda>p. p = ''/usr/bin/diagtool''),
     run_tree = (\<lambda>b. Output (''-Wall  -Wextra'' @ [CHR 0x0A] @ ''  note -Wunused x''))
   \<rparr>"

definition ex_args :: args where
  "ex_args = \<lparr> analyzers = [''clangsa''], show_warnings = False, details = False,
     profile = None, guideline = None, checker_config = False,
     only_enabled = False, only_disabled = False, output_format = ''rows'' \<rparr>"

section \<open>Properties\<close>

subsection \<open>Lower-casing and header normalisation\<close>

lemma py_lower_char_idem: "py_lower_char (py_lower_char c) = py_lower_char c"
proof -
  have bound: "(of_char c :: nat) < 256" by simp
  show ?thesis
    unfolding py_lower_char_def Let_def
    using bound by (auto simp del: nat_of_char_less_256)
qed

lemma py_lower_char_space: "py_lower_char (CHR ''_'') = CHR ''_''"
  by (simp add: py_lower_char_def)

lemma py_lower_char_not_space: "c \<noteq> CHR '' '' \<Longrightarrow> py_lower_char c \<noteq> CHR '' ''"
proof -
  assume ne: "c \<noteq> CHR '' ''"
  have bound: "(of_char c :: nat) < 256" by simp
  have sp: "(of_char (CHR '' '') :: nat) = 32" by simp
  show ?thesis
  proof (cases "py_lower_char c = c")
    case True
    with ne show ?thesis by simp
  next
    case False
    then have "(of_char (py_lower_char c) :: nat) = of_char c + 32 \<and> 65 \<le> (of_char c :: nat)"
      using bound unfolding py_lower_char_def Let_def
      by (auto simp del: nat_of_char_less_256 split: if_splits)
    then have "(of_char (py_lower_char c) :: nat) \<noteq> 32" by simp
    with sp show ?thesis by metis
  qed
qed

text \<open>
  C9. Header normalisation (lower-casing, then replacing every space by an
  underscore) is idempotent: normalising a normalised header changes nothing.
\<close>

theorem uglify_idempotent: "uglify (uglify s) = uglify s"
proof (induction s)
  case Nil
  show ?case by (simp add: uglify_def py_lower_def py_replace_char_def)
next
  case (Cons c s)
  have head: "(let d = (if py_lower_char c = CHR '' '' then CHR ''_'' else py_lower_char c)
               in if py_lower_char d = CHR '' '' then CHR ''_'' else py_lower_char d)
              = (if py_lower_char c = CHR '' '' then CHR ''_'' else py_lower_char c)"
    using py_lower_char_not_space [of "py_lower_char c"]
    by (simp add: Let_def py_lower_char_space py_lower_char_idem)
  from Cons head show ?case
    by (simp add: uglify_def py_lower_def py_replace_char_def Let_def)
qed

subsection \<open>Splitting at whitespace\<close>

text \<open>
  The tokens of \<open>py_split\<close> are non-empty and free of whitespace, together they are the
  text without its whitespace, a word without whitespace is its own single token, and a
  whitespace character separates the tokens on its left from those on its right.
\<close>

lemma split_from_tokens:
  "t \<in> set (split_from cur s) \<Longrightarrow> \<forall>c \<in> set cur. \<not> py_isspace c
     \<Longrightarrow> t \<noteq> [] \<and> (\<forall>c \<in> set t. \<not> py_isspace c)"
proof (induction s arbitrary: cur)
  case Nil
  then show ?case by (cases "cur = []") simp_all
next
  case (Cons c cs)
  show ?case
  proof (cases "py_isspace c")
    case sp: True
    show ?thesis
    proof (cases "cur = []")
      case True
      with sp Cons.prems(1) have "t \<in> set (split_from [] cs)" by simp
      from Cons.IH [OF this] show ?thesis by simp
    next
      case False
      with sp Cons.prems(1) have "t = cur \<or> t \<in> set (split_from [] cs)" by simp
      then show ?thesis
      proof
        assume "t = cur"
        with False Cons.prems(2) show ?thesis by simp
      next
        assume "t \<in> set (split_from [] cs)"
        from Cons.IH [OF this] show ?thesis by simp
      qed
    qed
  next
    case False
    with Cons.prems(1) have "t \<in> set (split_from (cur @ [c]) cs)" by simp
    moreover from False Cons.prems(2) have "\<forall>x \<in> set (cur @ [c]). \<not> py_isspace x" by simp
    ultimately show ?thesis by (rule Cons.IH)
  qed
qed

lemma py_split_tokens:
  "t \<in> set (py_split s) \<Longrightarrow> t \<noteq> [] \<and> (\<forall>c \<in> set t. \<not> py_isspace c)"
proof -
  assume "t \<in> set (py_split s)"
  then have "t \<in> set (split_from [] s)" by (simp only: py_split_def)
  moreover have "\<forall>c \<in> set ([] :: string). \<not> py_isspace c" by simp
  ultimately show ?thesis by (rule split_from_tokens)
qed

lemma split_from_concat:
  "concat (split_from cur s) = cur @ filter (\<lambda>c. \<not> py_isspace c) s"
  by (induction s arbitrary: cur) simp_all

lemma py_split_concat: "concat (py_split s) = filter (\<lambda>c. \<not> py_isspace c) s"
  by (simp add: py_split_def split_from_concat)

lemma split_from_word:
  "\<forall>c \<in> set t. \<not> py_isspace c \<Longrightarrow> split_from cur t = (if cur @ t = [] then [] else [cur @ t])"
  by (induction t arbitrary: cur) auto


lemma split_from_sep:
  "py_isspace sp \<Longrightarrow> split_from cur (u @ sp # v) = split_from cur u @ py_split v"
  by (induction cur u rule: split_from.induct) (auto simp: py_split_def)


lemma py_split_word: "t \<noteq> [] \<Longrightarrow> \<forall>c \<in> set t. \<not> py_isspace c \<Longrightarrow> py_split t = [t]"
  by (simp add: py_split_def split_from_word)


lemma py_split_sep: "py_isspace sp \<Longrightarrow> py_split (u @ sp # v) = py_split u @ py_split v"
  using split_from_sep [of sp "[]" u v] by (simp add: py_split_def)

subsection \<open>The warning flags\<close>

lemma path_join_diagtool: "path_join d ''diagtool'' \<noteq> []"
  by (simp add: path_join_def startswith_def)


lemma get_diagtool_bin_Some: "get_diagtool_bin ctx = Some b \<Longrightarrow> b \<noteq> []"
  using path_join_diagtool
  by (auto simp: get_diagtool_bin_def Let_def split: option.splits if_splits)


lemma get_warnings_None: "get_diagtool_bin ctx = None \<Longrightarrow> get_warnings ctx = []"
  by (simp add: get_warnings_def)


lemma get_warnings_Some:
  assumes "get_diagtool_bin ctx = Some b"
  shows "get_warnings ctx =
     (case run_tree ctx b of
        Output result \<Rightarrow> map (drop 2) (filter (\<lambda>w. startswith w ''-W'') (py_split result))
      | CalledProcessError rc \<Rightarrow> []
      | OSError \<Rightarrow> [])"
proof -
  from assms have "b \<noteq> []" by (rule get_diagtool_bin_Some)
  with assms show ?thesis by (simp add: get_warnings_def)
qed

text \<open>
  C8. When there is no helper binary (no binary of the analyzer is configured, or no
  \<^verbatim>\<open>diagtool\<close> lies next to it), when its run cannot be started and when it exits
  with a non-zero code, \<open>get_warnings\<close> returns the empty list; when the run succeeds it
  returns the whitespace-separated tokens of the output that start with \<^verbatim>\<open>-W\<close>, in
  their order, each without these two characters.
\<close>

theorem get_warnings_result:
  "((\<forall>cb. clang_bin ctx = Some cb \<longrightarrow>
          cb = [] \<or> \<not> path_exists ctx (path_join (dirname (realpath ctx cb)) ''diagtool''))
      \<longrightarrow> get_warnings ctx = []) \<and>
   (get_diagtool_bin ctx = None \<longrightarrow> get_warnings ctx = []) \<and>
   (get_diagtool_bin ctx = Some b \<longrightarrow>
      (run_tree ctx b = OSError \<longrightarrow> get_warnings ctx = []) \<and>
      (run_tree ctx b = CalledProcessError rc \<longrightarrow> get_warnings ctx = []) \<and>
      (run_tree ctx b = Output out \<longrightarrow>
         get_warnings ctx = map (drop 2) (filter (\<lambda>w. startswith w ''-W'') (py_split out))))"
proof -
  have absent: "get_diagtool_bin ctx = None"
    if "\<forall>cb. clang_bin ctx = Some cb \<longrightarrow>
          cb = [] \<or> \<not> path_exists ctx (path_join (dirname (realpath ctx cb)) ''diagtool'')"
    using that by (cases "clang_bin ctx") (auto simp: get_diagtool_bin_def Let_def)
  have c1: "(\<forall>cb. clang_bin ctx = Some cb \<longrightarrow>
          cb = [] \<or> \<not> path_exists ctx (path_join (dirname (realpath ctx cb)) ''diagtool''))
      \<longrightarrow> get_warnings ctx = []"
    using absent get_warnings_None by blast
  have c2: "get_diagtool_bin ctx = None \<longrightarrow> get_warnings ctx = []"
    by (simp add: get_warnings_None)
  have c3: "get_diagtool_bin ctx = Some b \<longrightarrow>
      (run_tree ctx b = OSError \<longrightarrow> get_warnings ctx = []) \<and>
      (run_tree ctx b = CalledProcessError rc \<longrightarrow> get_warnings ctx = []) \<and>
      (run_tree ctx b = Output out \<longrightarrow>
         get_warnings ctx = map (drop 2) (filter (\<lambda>w. startswith w ''-W'') (py_split out)))"
  proof
    assume "get_diagtool_bin ctx = Some b"
    from get_warnings_Some [OF this]
    show "(run_tree ctx b = OSError \<longrightarrow> get_warnings ctx = []) \<and>
      (run_tree ctx b = CalledProcessError rc \<longrightarrow> get_warnings ctx = []) \<and>
      (run_tree ctx b = Output out \<longrightarrow>
         get_warnings ctx = map (drop 2) (filter (\<lambda>w. startswith w ''-W'') (py_split out)))"
      by simp
  qed
  from c1 c2 c3 show ?thesis by (intro conjI)
qed

theorem get_warnings_result_witness:
  "get_warnings ex_ctxt = [''all'', ''extra'', ''unused'']
   \<and> get_warnings (ex_ctxt\<lparr>clang_bin := None\<rparr>) = []
   \<and> get_warnings (ex_ctxt\<lparr>run_tree := (\<lambda>b. OSError)\<rparr>) = []
   \<and> get_warnings (ex_ctxt\<lparr>run_tree := (\<lambda>b. CalledProcessError 1)\<rparr>) = []"
proof -
  have bin: "get_diagtool_bin ex_ctxt = Some ''/usr/bin/diagtool''"
    by (simp add: get_diagtool_bin_def ex_ctxt_def path_join_def dirname_def rstrip_sep_def
        startswith_def)
  have bin1: "get_diagtool_bin (ex_ctxt\<lparr>run_tree := (\<lambda>b. OSError)\<rparr>) = Some ''/usr/bin/diagtool''"
    by (simp add: get_diagtool_bin_def ex_ctxt_def path_join_def dirname_def rstrip_sep_def
        startswith_def)
  have bin2: "get_diagtool_bin (ex_ctxt\<lparr>run_tree := (\<lambda>b. CalledProcessError 1)\<rparr>)
                = Some ''/usr/bin/diagtool''"
    by (simp add: get_diagtool_bin_def ex_ctxt_def path_join_def dirname_def rstrip_sep_def
        startswith_def)
  have none: "get_diagtool_bin (ex_ctxt\<lparr>clang_bin := None\<rparr>) = None"
    by (simp add: get_diagtool_bin_def)
  have out: "run_tree ex_ctxt ''/usr/bin/diagtool''
               = Output (''-Wall  -Wextra'' @ [CHR 0x0A] @ ''  note -Wunused x'')"
    by (simp add: ex_ctxt_def)
  have toks: "map (drop 2) (filter (\<lambda>w. startswith w ''-W'')
                (py_split (''-Wall  -Wextra'' @ [CHR 0x0A] @ ''  note -Wunused x'')))
              = [''all'', ''extra'', ''unused'']"
    by (simp add: py_split_def py_isspace_def startswith_def)
  from get_warnings_result [of ex_ctxt "''/usr/bin/diagtool''" 0
      "''-Wall  -Wextra'' @ [CHR 0x0A] @ ''  note -Wunused x''"] bin out toks
  have 1: "get_warnings ex_ctxt = [''all'', ''extra'', ''unused'']" by simp
  from get_warnings_result [of "ex_ctxt\<lparr>clang_bin := None\<rparr>" "[]" 0 "[]"] none
  have 2: "get_warnings (ex_ctxt\<lparr>clang_bin := None\<rparr>) = []" by simp
  from get_warnings_result [of "ex_ctxt\<lparr>run_tree := (\<lambda>b. OSError)\<rparr>" "''/usr/bin/diagtool''" 0 "[]"] bin1
  have 3: "get_warnings (ex_ctxt\<lparr>run_tree := (\<lambda>b. OSError)\<rparr>) = []" by simp
  from get_warnings_result [of "ex_ctxt\<lparr>run_tree := (\<lambda>b. CalledProcessError 1)\<rparr>"
      "''/usr/bin/diagtool''" 1 "[]"] bin2
  have 4: "get_warnings (ex_ctxt\<lparr>run_tree := (\<lambda>b. CalledProcessError 1)\<rparr>) = []" by simp
  from 1 2 3 4 show ?thesis by simp
qed

subsection \<open>The guideline matcher\<close>

lemma match_labels_iff:
  "match_labels choices sel labels \<longleftrightarrow>
     (\<exists>(label, val) \<in> set labels. (label = ''guideline'' \<or> label \<in> set choices) \<and> val \<in> set sel)"
  by (induction choices sel labels rule: match_labels.induct) auto



text \<open>
  C2. \<open>match_guideline\<close> holds of a checker and a requested list of guidelines and rules
  exactly when some label of the checker has a key that is \<^verbatim>\<open>guideline\<close> or a key of the
  descriptions of the guidelines, and a value among the requested ones.
\<close>

theorem match_guideline_iff:
  "match_guideline ctx c sel \<longleftrightarrow>
     (\<exists>(label, val) \<in> set (labels_of_checker ctx c).
        (label = ''guideline'' \<or> label \<in> fst ` set (get_description ctx ''guideline''))
        \<and> val \<in> set sel)"
  by (simp add: match_guideline_def match_labels_iff)



theorem match_guideline_iff_witness:
  "match_guideline ex_ctxt ''C'' [''arr30-c''] \<and> \<not> match_guideline ex_ctxt ''A'' [''HIGH'']"
  using match_guideline_iff [of ex_ctxt "''C''" "[''arr30-c'']"]
        match_guideline_iff [of ex_ctxt "''A''" "[''HIGH'']"]
  by (simp add: ex_ctxt_def)

subsection \<open>The loops as list functions\<close>

lemma checker_loop_eq:
  "checker_loop ctx a an items rows = rows @ List.map_filter (checker_row ctx a an) items"
  by (induction items arbitrary: rows) (auto split: option.splits)


lemma warning_loop_eq:
  "warning_loop ctx a ws rows = rows @ List.map_filter (warning_row ctx a) ws"
  by (induction ws arbitrary: rows) (auto split: option.splits)


lemma config_loop_eq:
  "config_loop ctx a ans rows fails =
     (rows @ concat (map (\<lambda>an. map (config_row a an) (get_checker_config ctx an)) ans),
      fails @ filter (\<lambda>an. get_checker_config ctx an = []) ans)"
  by (induction ans arbitrary: rows fails) (auto simp: Let_def)

subsection \<open>The modes of the command\<close>

lemma main_modes:
  assumes "check_supported_analyzers ctx (analyzers a) = (working, errored)"
  shows "main ctx a =
     (if working = [] then ([], Exited 1)
      else if profile a = Some ''list'' then list_profiles ctx a
      else if checker_config a then list_checker_config ctx a working
      else if guideline a = Some [] then list_guidelines ctx a
      else list_checkers ctx a working errored)"
  using assms by (simp add: main_def check_available_analyzers_def)

lemma analyzer_loop_Inr:
  "profile_checkers_of ctx a = Inr pc \<Longrightarrow>
   analyzer_loop ctx a ans rows =
     Inr (rows @ concat (map (\<lambda>an. List.map_filter (checker_row ctx a an)
                                   (checks ctx an (get_analyzer_checkers ctx an) pc)) ans))"
  by (induction ans arbitrary: rows) (simp_all add: checker_loop_eq)

lemma analyzer_loop_Inl:
  "profile_checkers_of ctx a = Inl errs \<Longrightarrow> ans \<noteq> [] \<Longrightarrow> analyzer_loop ctx a ans rows = Inl errs"
  by (cases ans) simp_all

lemma warning_rows_map:
  "List.map_filter (warning_row ctx a) ws =
     map (\<lambda>w. if details a
               then [Str [], Str (''clang-diagnostic-'' @ w), Str ''-'', Str ''MEDIUM'',
                     guideline_cell ctx a (''clang-diagnostic-'' @ w), Str ''-'']
               else [Str (''clang-diagnostic-'' @ w)])
         (filter (\<lambda>w. \<not> guideline_skips ctx a (''clang-diagnostic-'' @ w)) ws)"
  by (induction ws) (simp_all add: warning_row_def Let_def)

lemma guideline_skips_iff:
  "guideline_skips ctx a name = (\<exists>g. guideline a = Some g \<and> \<not> match_guideline ctx name g)"
  by (cases "guideline a") (simp_all add: guideline_skips_def)

lemma checker_row_None_iff:
  "(checker_row ctx a an (c, st, d) = None) =
     ((st \<noteq> enabled \<and> profile a \<noteq> None) \<or> (st = enabled \<and> only_disabled a)
      \<or> (st \<noteq> enabled \<and> only_enabled a) \<or> guideline_skips ctx a c)"
  by (simp add: checker_row_def)

lemma uglify_headers:
  "uglify ''Enabled'' = ''enabled''" "uglify ''Description'' = ''description''"
  by code_simp+


lemma list_checkers_Inr:
  "collect_rows ctx a working = Inr rows \<Longrightarrow>
   list_checkers ctx a working errored =
     ((if rows \<noteq> [] then [Print_twodim (output_format a) (checkers_header a) rows] else [])
      @ [Print_unsupported_analyzers errored], Returned)"
  by (simp add: list_checkers_def)

subsection \<open>The rows of the warnings\<close>

text \<open>
  C7. For the warnings \<open>ws\<close> that the helper returns, the loop over the warnings appends
  one row for each warning that the guideline test keeps, in order; the name in the row is
  the warning prefixed with \<^verbatim>\<open>clang-diagnostic-\<close>, and with details the analyzer column
  is \<^verbatim>\<open>-\<close> and the severity is \<^verbatim>\<open>MEDIUM\<close>. A warning is dropped exactly when a list of
  guidelines is given and \<open>match_guideline\<close> fails on the prefixed name; a checker that
  passes the tests on its state is dropped by the same test on its name. With
  \<^verbatim>\<open>show_warnings\<close> these rows follow the rows of the checkers.
\<close>

theorem warning_rows:
  "warning_loop ctx a ws rows =
     rows @ map (\<lambda>w. if details a
                      then [Str [], Str (''clang-diagnostic-'' @ w), Str ''-'', Str ''MEDIUM'',
                            guideline_cell ctx a (''clang-diagnostic-'' @ w), Str ''-'']
                      else [Str (''clang-diagnostic-'' @ w)])
                (filter (\<lambda>w. \<not> (\<exists>g. guideline a = Some g
                                     \<and> \<not> match_guideline ctx (''clang-diagnostic-'' @ w) g)) ws)
   \<and> (checker_row ctx a an (c, st, d) = None) =
       ((st \<noteq> enabled \<and> profile a \<noteq> None) \<or> (st = enabled \<and> only_disabled a)
        \<or> (st \<noteq> enabled \<and> only_enabled a)
        \<or> (\<exists>g. guideline a = Some g \<and> \<not> match_guideline ctx c g))
   \<and> (show_warnings a \<and> analyzer_loop ctx a working [] = Inr rows \<longrightarrow>
        collect_rows ctx a working = Inr (warning_loop ctx a (get_warnings ctx) rows))"
  by (simp add: warning_loop_eq warning_rows_map checker_row_None_iff guideline_skips_iff
      collect_rows_def)

lemma state_cell_not_empty: "state_cell a st \<noteq> Str []"
  by (simp add: state_cell_def)

lemma checkers_header_details:
  "details a \<Longrightarrow>
   length (checkers_header a) = 6
   \<and> checkers_header a ! 0 = (if output_format a \<in> {''csv'', ''json''} then ''enabled'' else ''Enabled'')
   \<and> checkers_header a ! 5 =
       (if output_format a \<in> {''csv'', ''json''} then ''description'' else ''Description'')"
  by (simp add: checkers_header_def format_header_def uglify_headers)

text \<open>
  C10. With details, every row that the loop over the warnings emits has as many cells as
  the header has columns; its cell in the column \<^verbatim>\<open>Enabled\<close> is the empty string,
  whatever the output format, and so differs from the cell of every checker state (the
  strings \<^verbatim>\<open>+\<close> and \<^verbatim>\<open>-\<close>, the booleans of json); its cell in the column
  \<^verbatim>\<open>Description\<close> is \<^verbatim>\<open>-\<close>.
\<close>

theorem warning_row_enabled_column:
  "details a \<Longrightarrow> r \<in> set (warning_loop ctx a ws []) \<Longrightarrow>
   length r = length (checkers_header a)
   \<and> checkers_header a ! 0 = (if output_format a \<in> {''csv'', ''json''} then ''enabled'' else ''Enabled'')
   \<and> r ! 0 = Str []
   \<and> r ! 0 \<noteq> state_cell a st
   \<and> checkers_header a ! 5 =
       (if output_format a \<in> {''csv'', ''json''} then ''description'' else ''Description'')
   \<and> r ! 5 = Str ''-''"
proof -
  assume det: "details a" and mem: "r \<in> set (warning_loop ctx a ws [])"
  from mem det have "\<exists>w. r = [Str [], Str (''clang-diagnostic-'' @ w), Str ''-'', Str ''MEDIUM'',
        guideline_cell ctx a (''clang-diagnostic-'' @ w), Str ''-'']"
    by (auto simp: warning_loop_eq warning_rows_map)
  then obtain w where r: "r = [Str [], Str (''clang-diagnostic-'' @ w), Str ''-'', Str ''MEDIUM'',
        guideline_cell ctx a (''clang-diagnostic-'' @ w), Str ''-'']" ..
  have "state_cell a st \<noteq> Str []" by (rule state_cell_not_empty)
  with r checkers_header_details [OF det] show ?thesis by simp
qed

subsection \<open>The configuration options\<close>

lemma list_checker_config_eq:
  "list_checker_config ctx a working =
     (let rows = concat (map (\<lambda>an. map (config_row a an) (get_checker_config ctx an)) working);
          failures = filter (\<lambda>an. get_checker_config ctx an = []) working
      in ((if rows \<noteq> []
           then [Print_twodim (output_format a)
                   (format_header a (if details a then [''Option'', ''Description''] else [''Option'']))
                   rows]
           else [])
          @ (if failures \<noteq> [] then [Log_error (config_failure_message failures)] else []),
          if failures \<noteq> [] then Exited 1 else Returned))"
  by (simp add: list_checker_config_def config_loop_eq Let_def)

text \<open>
  C3 (as the code has it). In the mode of the configuration options the run returns
  normally exactly when every working analyzer reports options; it exits with code 1 as
  soon as one of them reports none (and when there is no working analyzer at all). The
  rows of the analyzers that report options are printed first, then one error names the
  analyzers that failed.
\<close>

theorem checker_config_exit:
  assumes "check_supported_analyzers ctx (analyzers a) = (working, errored)"
    and "profile a \<noteq> Some ''list''" and "checker_config a"
  shows "(snd (main ctx a) = Returned) =
           (working \<noteq> [] \<and> (\<forall>an \<in> set working. get_checker_config ctx an \<noteq> []))
         \<and> (snd (main ctx a) \<noteq> Returned \<longrightarrow> snd (main ctx a) = Exited 1)
         \<and> (working \<noteq> [] \<longrightarrow>
             fst (main ctx a) =
               (let rows = concat (map (\<lambda>an. map (config_row a an) (get_checker_config ctx an)) working);
                    failures = filter (\<lambda>an. get_checker_config ctx an = []) working
                in (if rows \<noteq> []
                    then [Print_twodim (output_format a)
                            (format_header a (if details a then [''Option'', ''Description'']
                                              else [''Option'']))
                            rows]
                    else [])
                   @ (if failures \<noteq> [] then [Log_error (config_failure_message failures)] else [])))"
proof (cases "working = []")
  case True
  with assms show ?thesis by (simp add: main_modes)
next
  case False
  with assms have m: "main ctx a = list_checker_config ctx a working" by (simp add: main_modes)
  show ?thesis
    unfolding m list_checker_config_eq using False
    by (auto simp: Let_def filter_empty_conv)
qed

subsection \<open>The listing of the checkers\<close>

lemma main_list_checkers:
  assumes "check_supported_analyzers ctx (analyzers a) = (working, errored)" and "working \<noteq> []"
    and "profile a \<noteq> Some ''list''" and "\<not> checker_config a" and "guideline a \<noteq> Some []"
  shows "main ctx a = list_checkers ctx a working errored"
  using assms by (simp add: main_modes)

text \<open>
  C5 (as the code has it). A listing of the checkers whose row sequence is empty prints
  nothing at all: the table is printed only when there is a row, so no document is
  emitted, in any output format. The empty result is not an error: the run logs none and
  returns normally. With at least one row exactly one table is printed.
\<close>

theorem empty_listing_prints_nothing:
  assumes "check_supported_analyzers ctx (analyzers a) = (working, errored)" and "working \<noteq> []"
    and "profile a \<noteq> Some ''list''" and "\<not> checker_config a" and "guideline a \<noteq> Some []"
    and "collect_rows ctx a working = Inr rows"
  shows "(rows = [] \<longrightarrow> main ctx a = ([Print_unsupported_analyzers errored], Returned))
       \<and> (rows \<noteq> [] \<longrightarrow>
            main ctx a = ([Print_twodim (output_format a) (checkers_header a) rows,
                           Print_unsupported_analyzers errored], Returned))"
  using assms(6) by (simp add: main_list_checkers [OF assms(1-5)] list_checkers_Inr)

subsection \<open>The empty guideline selector\<close>






subsection \<open>The requested profile\<close>

lemma checker_row_profile_disabled:
  "profile a \<noteq> None \<Longrightarrow> fst (snd item) \<noteq> enabled \<Longrightarrow> checker_row ctx a an item = None"
  by (cases item) (simp add: checker_row_def)

lemma map_filter_enabled:
  "profile a \<noteq> None \<Longrightarrow>
   List.map_filter (checker_row ctx a an) items
     = List.map_filter (checker_row ctx a an) (filter (\<lambda>item. fst (snd item) = enabled) items)"
proof (induction items)
  case Nil
  show ?case by simp
next
  case (Cons item items)
  show ?case
  proof (cases "fst (snd item) = enabled")
    case True
    with Cons show ?thesis by (simp split: option.splits)
  next
    case False
    with Cons show ?thesis by (simp add: checker_row_profile_disabled)
  qed
qed

text \<open>
  C1 (as the code has it). In a listing of the checkers (at least one working analyzer,
  neither the mode of the configuration options nor the listing of the guidelines) that
  requests a profile by a name other than \<^verbatim>\<open>list\<close>: when the name is not a key of the
  descriptions of the profiles, the run logs the two errors and exits with code 1, and
  prints nothing; when the name is such a key, the run returns normally and the loop over
  the analyzers yields rows only for checkers whose resolved state is enabled, so that it
  yields no row when no checker of a working analyzer is enabled under the profile, and
  then nothing is printed unless warnings are shown.
\<close>

theorem unknown_profile_exits:
  assumes "check_supported_analyzers ctx (analyzers a) = (working, errored)" and "working \<noteq> []"
    and "profile a = Some p" and "p \<noteq> ''list''"
    and "\<not> checker_config a" and "guideline a \<noteq> Some []"
  shows "(p \<notin> fst ` set (get_description ctx ''profile'') \<longrightarrow>
            main ctx a =
              ([Log_error (''Checker profile '' @ quoted p @ '' does not exist!''),
                Log_error (''To list available profiles, use '' @ quoted ''--profile list'' @ ''.'')],
               Exited 1))
       \<and> (p \<in> fst ` set (get_description ctx ''profile'') \<longrightarrow>
            snd (main ctx a) = Returned
            \<and> analyzer_loop ctx a working [] =
                Inr (concat (map (\<lambda>an. List.map_filter (checker_row ctx a an)
                                    (filter (\<lambda>item. fst (snd item) = enabled)
                                       (checks ctx an (get_analyzer_checkers ctx an)
                                          [(''profile:'' @ p, True)])))
                               working))
            \<and> ((\<forall>an \<in> set working.
                   \<forall>item \<in> set (checks ctx an (get_analyzer_checkers ctx an)
                                   [(''profile:'' @ p, True)]).
                     fst (snd item) \<noteq> enabled) \<longrightarrow>
                 analyzer_loop ctx a working [] = Inr []
                 \<and> (\<not> show_warnings a \<longrightarrow>
                      main ctx a = ([Print_unsupported_analyzers errored], Returned))))"
proof -
  from assms have m: "main ctx a = list_checkers ctx a working errored"
    by (simp add: main_list_checkers)
  from assms(3) have pn: "profile a \<noteq> None" by simp
  show ?thesis
  proof (cases "p \<in> fst ` set (get_description ctx ''profile'')")
    case False
    with assms(3) have "profile_checkers_of ctx a = Inl (profile_missing_errors p)"
      by (simp add: profile_checkers_of_def)
    from analyzer_loop_Inl [OF this assms(2)] False show ?thesis
      by (simp add: m list_checkers_def collect_rows_def profile_missing_errors_def)
  next
    case True
    with assms(3) have pc: "profile_checkers_of ctx a = Inr [(''profile:'' @ p, True)]"
      by (simp add: profile_checkers_of_def)
    have rows: "analyzer_loop ctx a working [] =
                Inr (concat (map (\<lambda>an. List.map_filter (checker_row ctx a an)
                                    (filter (\<lambda>item. fst (snd item) = enabled)
                                       (checks ctx an (get_analyzer_checkers ctx an)
                                          [(''profile:'' @ p, True)])))
                               working))"
      using map_filter_enabled [OF pn, of ctx] by (simp add: analyzer_loop_Inr [OF pc])
    have none: "analyzer_loop ctx a working [] = Inr []"
      if h: "\<forall>an \<in> set working.
            \<forall>item \<in> set (checks ctx an (get_analyzer_checkers ctx an) [(''profile:'' @ p, True)]).
              fst (snd item) \<noteq> enabled"
    proof -
      have "filter (\<lambda>item. fst (snd item) = enabled)
              (checks ctx an (get_analyzer_checkers ctx an) [(''profile:'' @ p, True)]) = []"
        if "an \<in> set working" for an
        using h that by (simp add: filter_empty_conv)
      then show ?thesis by (simp add: rows)
    qed
    have ret: "snd (main ctx a) = Returned"
      by (simp add: m list_checkers_def collect_rows_def analyzer_loop_Inr [OF pc])
    have quiet: "main ctx a = ([Print_unsupported_analyzers errored], Returned)"
      if "analyzer_loop ctx a working [] = Inr []" and "\<not> show_warnings a"
      using that by (simp add: m list_checkers_def collect_rows_def)
    from True rows none ret quiet show ?thesis by blast
  qed
qed

subsection \<open>The filters on the state\<close>

text \<open>
  C6 (as the code has it). For a checker with its resolved state that neither the profile
  test nor the guideline test removes, the loop emits its row under \<^verbatim>\<open>only_enabled\<close>
  exactly when it emits none under \<^verbatim>\<open>only_disabled\<close>; a checker that one of these two
  tests removes has a row under neither. A row emitted under one of the two filters is the
  row emitted without them.
\<close>

theorem only_enabled_only_disabled_partition:
  "((profile a = None \<or> st = enabled) \<and> \<not> guideline_skips ctx a c \<longrightarrow>
      (checker_row ctx (a\<lparr>only_enabled := True, only_disabled := False\<rparr>) an (c, st, d) \<noteq> None)
        = (checker_row ctx (a\<lparr>only_enabled := False, only_disabled := True\<rparr>) an (c, st, d) = None))
   \<and> (\<not> ((profile a = None \<or> st = enabled) \<and> \<not> guideline_skips ctx a c) \<longrightarrow>
        checker_row ctx (a\<lparr>only_enabled := True, only_disabled := False\<rparr>) an (c, st, d) = None
        \<and> checker_row ctx (a\<lparr>only_enabled := False, only_disabled := True\<rparr>) an (c, st, d) = None)
   \<and> (checker_row ctx (a\<lparr>only_enabled := True, only_disabled := False\<rparr>) an (c, st, d) = Some r
        \<or> checker_row ctx (a\<lparr>only_enabled := False, only_disabled := True\<rparr>) an (c, st, d) = Some r
       \<longrightarrow> checker_row ctx (a\<lparr>only_enabled := False, only_disabled := False\<rparr>) an (c, st, d) = Some r)"
  by (auto simp: checker_row_def guideline_skips_def state_cell_def guideline_cell_def
      split: if_splits)

section \<open>Concrete runs\<close>

text \<open>The definitions that a run on the small installation unfolds.\<close>

lemmas run_defs =
  main_def check_available_analyzers_def list_profiles_def list_checker_config_def
  list_guidelines_def list_checkers_def collect_rows_def profile_checkers_of_def
  checker_row_def warning_row_def guideline_skips_def match_guideline_def
  checkers_header_def format_header_def config_row_def profile_missing_errors_def
  state_cell_def guideline_cell_def guideline_rules_for_checker_def format_guideline_def
  sorted_set_def ex_ctxt_def ex_args_def Let_def

theorem warning_rows_witness:
  "collect_rows ex_ctxt (ex_args\<lparr>show_warnings := True\<rparr>) [''clangsa'']
     = Inr [[Str ''A''], [Str ''B''], [Str ''C''], [Str ''clang-diagnostic-all''],
            [Str ''clang-diagnostic-extra''], [Str ''clang-diagnostic-unused'']]"
proof -
  have loop: "analyzer_loop ex_ctxt (ex_args\<lparr>show_warnings := True\<rparr>) [''clangsa''] []
                = Inr [[Str ''A''], [Str ''B''], [Str ''C'']]"
    by (simp add: run_defs)
  have sw: "show_warnings (ex_args\<lparr>show_warnings := True\<rparr>)" by simp
  have ws: "get_warnings ex_ctxt = [''all'', ''extra'', ''unused'']"
    by (simp add: get_warnings_def get_diagtool_bin_def ex_ctxt_def path_join_def dirname_def
        rstrip_sep_def startswith_def py_split_def py_isspace_def)
  from warning_rows [of ex_ctxt "ex_args\<lparr>show_warnings := True\<rparr>" "get_warnings ex_ctxt"
      "[[Str ''A''], [Str ''B''], [Str ''C'']]" "''clangsa''" "''A''" enabled "''a''" "[''clangsa'']"]
    loop sw
  have "collect_rows ex_ctxt (ex_args\<lparr>show_warnings := True\<rparr>) [''clangsa'']
          = Inr (warning_loop ex_ctxt (ex_args\<lparr>show_warnings := True\<rparr>) (get_warnings ex_ctxt)
                   [[Str ''A''], [Str ''B''], [Str ''C'']])"
    by blast
  then show ?thesis by (simp add: ws) (simp add: run_defs)
qed

theorem warning_row_enabled_column_witness:
  "warning_loop ex_ctxt (ex_args\<lparr>details := True, output_format := ''json''\<rparr>) [''all''] []
     = [[Str [], Str ''clang-diagnostic-all'', Str ''-'', Str ''MEDIUM'', Dict [], Str ''-'']]
   \<and> checkers_header (ex_args\<lparr>details := True, output_format := ''json''\<rparr>) ! 0 = ''enabled''
   \<and> state_cell (ex_args\<lparr>details := True, output_format := ''json''\<rparr>) enabled = Flag True"
proof -
  have rows: "warning_loop ex_ctxt (ex_args\<lparr>details := True, output_format := ''json''\<rparr>) [''all''] []
     = [[Str [], Str ''clang-diagnostic-all'', Str ''-'', Str ''MEDIUM'', Dict [], Str ''-'']]"
    by (simp add: run_defs)
  have det: "details (ex_args\<lparr>details := True, output_format := ''json''\<rparr>)" by simp
  have fmt: "output_format (ex_args\<lparr>details := True, output_format := ''json''\<rparr>) = ''json''" by simp
  have mem: "[Str [], Str ''clang-diagnostic-all'', Str ''-'', Str ''MEDIUM'', Dict [], Str ''-'']
               \<in> set (warning_loop ex_ctxt (ex_args\<lparr>details := True, output_format := ''json''\<rparr>)
                        [''all''] [])"
    by (simp only: rows) simp
  from warning_row_enabled_column [OF det mem, of enabled] fmt
  have "checkers_header (ex_args\<lparr>details := True, output_format := ''json''\<rparr>) ! 0 = ''enabled''"
    by simp
  with rows show ?thesis by (simp add: state_cell_def)
qed

theorem checker_config_exit_witness:
  "main ex_ctxt (ex_args\<lparr>checker_config := True\<rparr>)
     = ([Print_twodim ''rows'' [''Option''] [[Str ''clangsa:opt'']]], Returned)"
proof -
  have sup: "check_supported_analyzers ex_ctxt (analyzers (ex_args\<lparr>checker_config := True\<rparr>))
               = ([''clangsa''], [])"
    by (simp add: ex_ctxt_def ex_args_def)
  have p: "profile (ex_args\<lparr>checker_config := True\<rparr>) \<noteq> Some ''list''" by (simp add: ex_args_def)
  have c: "checker_config (ex_args\<lparr>checker_config := True\<rparr>)" by simp
  have cfg: "get_checker_config ex_ctxt ''clangsa'' = [(''opt'', ''An option'')]"
    by (simp add: ex_ctxt_def)
  have d: "\<not> details (ex_args\<lparr>checker_config := True\<rparr>)" by (simp add: ex_args_def)
  have f: "output_format (ex_args\<lparr>checker_config := True\<rparr>) = ''rows''" by (simp add: ex_args_def)
  from checker_config_exit [OF sup p c] cfg d f
  have "snd (main ex_ctxt (ex_args\<lparr>checker_config := True\<rparr>)) = Returned
        \<and> fst (main ex_ctxt (ex_args\<lparr>checker_config := True\<rparr>))
            = [Print_twodim ''rows'' [''Option''] [[Str ''clangsa:opt'']]]"
    by (simp add: config_row_def format_header_def)
  then show ?thesis by (cases "main ex_ctxt (ex_args\<lparr>checker_config := True\<rparr>)") simp
qed

theorem checker_config_exit_counterexample:
  "get_checker_config ex_ctxt ''clangsa'' = [(''opt'', ''An option'')]
   \<and> main ex_ctxt (ex_args\<lparr>analyzers := [''clangsa'', ''clang-tidy''], checker_config := True\<rparr>)
       = ([Print_twodim ''rows'' [''Option''] [[Str ''clangsa:opt'']],
           Log_error (config_failure_message [''clang-tidy''])],
          Exited 1)"
  by (simp add: run_defs)

theorem empty_listing_prints_nothing_witness:
  "main ex_ctxt (ex_args\<lparr>analyzers := [''clang-tidy'']\<rparr>) = ([Print_unsupported_analyzers []], Returned)
   \<and> main ex_ctxt ex_args
       = ([Print_twodim ''rows'' [''Name''] [[Str ''A''], [Str ''B''], [Str ''C'']],
           Print_unsupported_analyzers []], Returned)"
proof -
  have 1: "check_supported_analyzers ex_ctxt (analyzers (ex_args\<lparr>analyzers := [''clang-tidy'']\<rparr>))
             = ([''clang-tidy''], [])"
    by (simp add: ex_ctxt_def)
  have 2: "collect_rows ex_ctxt (ex_args\<lparr>analyzers := [''clang-tidy'']\<rparr>) [''clang-tidy''] = Inr []"
    by (simp add: run_defs)
  have 3: "check_supported_analyzers ex_ctxt (analyzers ex_args) = ([''clangsa''], [])"
    by (simp add: ex_ctxt_def ex_args_def)
  have 4: "collect_rows ex_ctxt ex_args [''clangsa''] = Inr [[Str ''A''], [Str ''B''], [Str ''C'']]"
    by (simp add: run_defs)
  have a: "main ex_ctxt (ex_args\<lparr>analyzers := [''clang-tidy'']\<rparr>)
             = ([Print_unsupported_analyzers []], Returned)"
    using empty_listing_prints_nothing [OF 1 _ _ _ _ 2] by (simp add: ex_args_def)
  have b: "main ex_ctxt ex_args
       = ([Print_twodim ''rows'' [''Name''] [[Str ''A''], [Str ''B''], [Str ''C'']],
           Print_unsupported_analyzers []], Returned)"
    using empty_listing_prints_nothing [OF 3 _ _ _ _ 4]
    by (simp add: ex_args_def checkers_header_def format_header_def)
  from a b show ?thesis by simp
qed

theorem empty_listing_counterexample:
  "collect_rows ex_ctxt (ex_args\<lparr>analyzers := [''clang-tidy''], output_format := ''json''\<rparr>)
      [''clang-tidy''] = Inr []
   \<and> main ex_ctxt (ex_args\<lparr>analyzers := [''clang-tidy''], output_format := ''json''\<rparr>)
       = ([Print_unsupported_analyzers []], Returned)
   \<and> filter is_print
        (fst (main ex_ctxt (ex_args\<lparr>analyzers := [''clang-tidy''], output_format := ''json''\<rparr>))) = []"
  by (simp add: run_defs is_print_def)



theorem unknown_profile_exits_witness:
  "main ex_ctxt (ex_args\<lparr>profile := Some ''nonexistent''\<rparr>)
     = ([Log_error (''Checker profile '' @ quoted ''nonexistent'' @ '' does not exist!''),
         Log_error (''To list available profiles, use '' @ quoted ''--profile list'' @ ''.'')],
        Exited 1)
   \<and> checks ex_ctxt ''cppcheck'' (get_analyzer_checkers ex_ctxt ''cppcheck'')
        [(''profile:'' @ ''strict'', True)] = [(''D'', disabled, ''d'')]
   \<and> main ex_ctxt (ex_args\<lparr>analyzers := [''cppcheck''], profile := Some ''strict''\<rparr>)
       = ([Print_unsupported_analyzers []], Returned)"
proof -
  have 1: "check_supported_analyzers ex_ctxt (analyzers (ex_args\<lparr>profile := Some ''nonexistent''\<rparr>))
             = ([''clangsa''], [])"
    by (simp add: ex_ctxt_def ex_args_def)
  have 2: "check_supported_analyzers ex_ctxt
             (analyzers (ex_args\<lparr>analyzers := [''cppcheck''], profile := Some ''strict''\<rparr>))
             = ([''cppcheck''], [])"
    by (simp add: ex_ctxt_def ex_args_def)
  have d: "get_description ex_ctxt ''profile''
             = [(''default'', ''Default checkers''), (''strict'', ''Strict checkers''),
                (''sensitive'', ''Sensitive checkers'')]"
    by (simp add: ex_ctxt_def)
  have k: "checks ex_ctxt ''cppcheck'' (get_analyzer_checkers ex_ctxt ''cppcheck'')
             [(''profile:'' @ ''strict'', True)] = [(''D'', disabled, ''d'')]"
    by (simp add: ex_ctxt_def)
  have a: "main ex_ctxt (ex_args\<lparr>profile := Some ''nonexistent''\<rparr>)
     = ([Log_error (''Checker profile '' @ quoted ''nonexistent'' @ '' does not exist!''),
         Log_error (''To list available profiles, use '' @ quoted ''--profile list'' @ ''.'')],
        Exited 1)"
    using unknown_profile_exits [OF 1, of "''nonexistent''"] d by (simp add: ex_args_def)
  have b: "main ex_ctxt (ex_args\<lparr>analyzers := [''cppcheck''], profile := Some ''strict''\<rparr>)
       = ([Print_unsupported_analyzers []], Returned)"
    using unknown_profile_exits [OF 2, of "''strict''"] d k by (simp add: ex_args_def)
  from a b k show ?thesis by simp
qed

theorem unknown_profile_counterexample:
  "''nonexistent'' \<notin> set (map fst (get_description ex_ctxt ''profile''))
   \<and> main ex_ctxt (ex_args\<lparr>profile := Some ''nonexistent'', checker_config := True\<rparr>)
       = ([Print_twodim ''rows'' [''Option''] [[Str ''clangsa:opt'']]], Returned)
   \<and> main ex_ctxt (ex_args\<lparr>profile := Some ''nonexistent'', guideline := Some []\<rparr>)
       = ([Print ''Guideline: sei-cert'', Print ''Rules: arr30-c''], Returned)
   \<and> ''sensitive'' \<in> set (map fst (get_description ex_ctxt ''profile''))
   \<and> map (labels_of_checker ex_ctxt) [''A'', ''B'', ''C'']
       = [[(''profile'', ''default''), (''severity'', ''HIGH'')],
          [(''profile'', ''strict'')],
          [(''profile'', ''default''), (''guideline'', ''sei-cert''), (''sei-cert'', ''arr30-c'')]]
   \<and> main ex_ctxt (ex_args\<lparr>profile := Some ''sensitive''\<rparr>)
       = ([Print_twodim ''rows'' [''Name''] [[Str ''A''], [Str ''C'']],
           Print_unsupported_analyzers []], Returned)"
  by (simp add: run_defs)

theorem only_enabled_only_disabled_partition_witness:
  "checker_row ex_ctxt (ex_args\<lparr>only_enabled := True, only_disabled := False\<rparr>) ''clangsa''
     (''A'', enabled, ''a'') = Some [Str ''A'']
   \<and> checker_row ex_ctxt (ex_args\<lparr>only_enabled := False, only_disabled := True\<rparr>) ''clangsa''
     (''A'', enabled, ''a'') = None
   \<and> checker_row ex_ctxt (ex_args\<lparr>guideline := Some [''sei-cert''], only_enabled := True,
        only_disabled := False\<rparr>) ''clangsa'' (''A'', enabled, ''a'') = None"
  using only_enabled_only_disabled_partition [of ex_args enabled ex_ctxt "''A''" "''clangsa''" "''a''"
      "[Str ''A'']"]
    only_enabled_only_disabled_partition [of "ex_args\<lparr>guideline := Some [''sei-cert'']\<rparr>" enabled
      ex_ctxt "''A''" "''clangsa''" "''a''" "[Str ''A'']"]
  by (simp add: run_defs)

theorem only_enabled_only_disabled_counterexample:
  "checks ex_ctxt ''clangsa'' (get_analyzer_checkers ex_ctxt ''clangsa'') []
     = [(''A'', enabled, ''a''), (''B'', disabled, ''b''), (''C'', enabled, ''c'')]
   \<and> profile (ex_args\<lparr>guideline := Some [''sei-cert'']\<rparr>) = None
   \<and> main ex_ctxt (ex_args\<lparr>guideline := Some [''sei-cert''], only_enabled := True\<rparr>)
       = ([Print_twodim ''rows'' [''Name''] [[Str ''C'']], Print_unsupported_analyzers []], Returned)
   \<and> main ex_ctxt (ex_args\<lparr>guideline := Some [''sei-cert''], only_disabled := True\<rparr>)
       = ([Print_unsupported_analyzers []], Returned)"
  by (simp add: run_defs)

end
